theory Spec2Isabelle
  imports Complex_Main "HOL-Library.Sublist"
begin

section \<open>The \<open>get\<close> command of the aqi tool (cmd/get.go)\<close>

text \<open>
  The command reads five string flags, builds a query URL, performs one HTTP GET, decodes
  the JSON envelope and shows every station in a terminal view. Everything outside the
  file (the HTTP client, the JSON codec, the terminal library, the user's key presses) is
  an explicit input of the model, collected in the record \<open>world\<close>. A run yields the list
  of observable actions it performed and the way the process ended.
\<close>

subsection \<open>Data model\<close>

text \<open>A Go \<open>error\<close> value is represented by its message.\<close>

type_synonym error = string

text \<open>
  A Go \<open>float64\<close>: a finite value is given by the rational number it denotes (the sign of
  a zero is not recorded), the other values are the two infinities and NaN.
\<close>

datatype float64 = Finite rat | Infinity bool | NaN

record AqiInfo =
  Pollutant :: string
  Concentration :: float64
  Category :: string

record Station =
  CO :: float64
  NO2 :: float64
  OZONE :: float64
  PM10 :: float64
  PM25 :: float64
  CountryCode :: string
  Division :: string
  Latitude :: float64
  Longitude :: float64
  PostalCode :: string
  City :: string
  Place :: string
  State :: string
  UpdatedAt :: string
  AQI :: float64
  AqiInfo :: AqiInfo

text \<open>The reduced summary \<open>Aqi\<close> of the source; its fields carry the prefix \<open>Aqi_\<close>.\<close>

record Aqi =
  Aqi_City :: string
  Aqi_Place :: string
  Aqi_State :: string
  Aqi_UpdatedAt :: string
  Aqi_AQI :: float64
  Aqi_AqiInfo :: AqiInfo

record ApiResponse =
  Message :: string
  Stations :: "Station list"

text \<open>The five persistent flags of the command; an unset flag is the empty string.\<close>

record flags =
  city :: string
  postal :: string
  country :: string
  latitude :: string
  longitude :: string

subsection \<open>The query builder (getAqi, the if-chain that assigns \<open>url\<close>)\<close>

definition usage_message :: string where
  "usage_message =
     ''please specify the location by using any of the following flags: '' @
     ''--city, --postal, --country, --latitude, --longitude''"

definition build_url :: "flags \<Rightarrow> error + string" where
  "build_url f =
     (if city f \<noteq> [] \<and> postal f = [] \<and> country f = [] \<and> latitude f = [] \<and> longitude f = []
      then Inr (''http://localhost:3000/api?city='' @ city f)
      else if postal f \<noteq> [] \<and> country f \<noteq> [] \<and> latitude f = [] \<and> longitude f = []
      then Inr (''http://localhost:3000/api?postal='' @ postal f @ ''&country='' @ country f)
      else if latitude f \<noteq> [] \<and> longitude f \<noteq> []
      then Inr (''http://localhost:3000/api?lat='' @ latitude f @ ''&lng='' @ longitude f)
      else Inl usage_message)"

subsection \<open>float64 arithmetic and conversions used by dataUi\<close>

text \<open>
  \<open>round64\<close> rounds an exact result to the nearest binary64 value, ties to the even
  significand, with gradual underflow below \<open>2 ^ - 1022\<close> and overflow to an infinity
  from \<open>2 ^ 1024\<close> on. \<open>fdiv\<close> and \<open>fmul\<close> are the float64 division and
  multiplication by a positive constant (\<open>aqi / 500\<close> and \<open>\<dots> * 100\<close> in the source).
\<close>

fun bit_length :: "nat \<Rightarrow> nat" where
  "bit_length n = (if n = 0 then 0 else Suc (bit_length (n div 2)))"

declare bit_length.simps [simp del]

definition pow2 :: "int \<Rightarrow> rat" where
  "pow2 e = (if 0 \<le> e then 2 ^ nat e else 1 / 2 ^ nat (- e))"

definition ilog2 :: "rat \<Rightarrow> int" where
  "ilog2 a =
     (if 1 \<le> a then int (bit_length (nat \<lfloor>a\<rfloor>)) - 1
      else - int (bit_length (nat (\<lceil>1 / a\<rceil> - 1))))"

definition round_half_even :: "rat \<Rightarrow> int" where
  "round_half_even x =
     (let f = \<lfloor>x\<rfloor>; r = x - of_int f
      in if r < 1 / 2 then f
         else if 1 / 2 < r then f + 1
         else if even f then f else f + 1)"

definition round64 :: "rat \<Rightarrow> float64" where
  "round64 x =
     (if x = 0 then Finite 0
      else let a = \<bar>x\<bar>;
               e = max (ilog2 a) (- 1022);
               u = pow2 (e - 52);
               v = of_int (round_half_even (a / u)) * u
           in if pow2 1024 \<le> v then Infinity (x < 0)
              else Finite (if x < 0 then - v else v))"

definition fdiv :: "float64 \<Rightarrow> rat \<Rightarrow> float64" where
  "fdiv x c = (case x of Finite r \<Rightarrow> round64 (r / c) | Infinity s \<Rightarrow> Infinity s | NaN \<Rightarrow> NaN)"

definition fmul :: "float64 \<Rightarrow> rat \<Rightarrow> float64" where
  "fmul x c = (case x of Finite r \<Rightarrow> round64 (r * c) | Infinity s \<Rightarrow> Infinity s | NaN \<Rightarrow> NaN)"

text \<open>
  What the source leaves to the platform and to the widget library: the width of \<open>int\<close>,
  the result of converting a float64 that \<open>int\<close> cannot represent (implementation-dependent
  in Go), and the bar colour a new gauge starts with (\<open>Theme.Gauge.Bar\<close>).
\<close>

datatype Color = ColorRed | ColorGreen | ColorYellow | ColorOther nat

record platform =
  int_bits :: nat
  int_unrepresentable :: "float64 \<Rightarrow> int"
  Theme_Gauge_Bar :: Color

definition truncate_rat :: "rat \<Rightarrow> int" where
  "truncate_rat r = (if 0 \<le> r then \<lfloor>r\<rfloor> else \<lceil>r\<rceil>)"

text \<open>The conversion \<open>int(x)\<close>: the fraction is discarded when the result fits.\<close>

definition float_to_int :: "platform \<Rightarrow> float64 \<Rightarrow> int" where
  "float_to_int p x =
     (case x of
        Finite r \<Rightarrow>
          (let t = truncate_rat r
           in if - (2 ^ (int_bits p - 1)) \<le> t \<and> t < 2 ^ (int_bits p - 1) then t
              else int_unrepresentable p x)
      | Infinity s \<Rightarrow> int_unrepresentable p x
      | NaN \<Rightarrow> int_unrepresentable p x)"

fun digits :: "nat \<Rightarrow> string" where
  "digits n =
     (if n < 10 then [char_of (48 + n)]
      else digits (n div 10) @ [char_of (48 + n mod 10)])"

declare digits.simps [simp del]

definition Itoa :: "int \<Rightarrow> string" where
  "Itoa i = (if i < 0 then CHR ''-'' # digits (nat (- i)) else digits (nat i))"

subsection \<open>The terminal view (dataUi)\<close>

record GaugeWidget =
  Percent :: int
  Gauge_Rect :: "int \<times> int \<times> int \<times> int"
  Title :: string
  BarColor :: Color

record ListWidget =
  Rows :: "string list"
  List_Rect :: "int \<times> int \<times> int \<times> int"

record Event =
  ID :: string

text \<open>The colour switch on the category: a category without a case leaves the gauge as it is.\<close>

definition set_bar_color :: "string \<Rightarrow> GaugeWidget \<Rightarrow> GaugeWidget" where
  "set_bar_color category g =
     (if category = ''Good'' then g\<lparr>BarColor := ColorGreen\<rparr>
      else if category = ''Moderate'' then g\<lparr>BarColor := ColorYellow\<rparr>
      else if category = ''Unhealthy for Sensitive Groups'' then g\<lparr>BarColor := ColorRed\<rparr>
      else if category = ''Unhealthy'' then g\<lparr>BarColor := ColorRed\<rparr>
      else if category = ''Very Unhealthy'' then g\<lparr>BarColor := ColorRed\<rparr>
      else if category = ''Hazardous'' then g\<lparr>BarColor := ColorRed\<rparr>
      else g)"

definition NewGauge :: "platform \<Rightarrow> GaugeWidget" where
  "NewGauge p =
     \<lparr>Percent = 0, Gauge_Rect = (0, 0, 0, 0), Title = [], BarColor = Theme_Gauge_Bar p\<rparr>"

definition gauge :: "platform \<Rightarrow> float64 \<Rightarrow> Station \<Rightarrow> GaugeWidget" where
  "gauge p aqi station =
     set_bar_color (Category (AqiInfo station))
       ((NewGauge p)
          \<lparr>Percent := float_to_int p (fmul (fdiv aqi 500) 100),
           Gauge_Rect := (0, 0, 50, 5),
           Title := ''Air Quality Index = '' @ Itoa (float_to_int p aqi)\<rparr>)"

definition pollutant_list :: "platform \<Rightarrow> Station \<Rightarrow> ListWidget" where
  "pollutant_list p station =
     \<lparr>Rows =
        [''Pollutant: '' @ Pollutant (AqiInfo station),
         ''Concentration: '' @ Itoa (float_to_int p (Concentration (AqiInfo station))),
         ''Category: '' @ Category (AqiInfo station)],
      List_Rect = (50, 0, 100, 5)\<rparr>"

definition place_list :: "Station \<Rightarrow> ListWidget" where
  "place_list station =
     \<lparr>Rows =
        [''City: '' @ City station,
         ''State: '' @ State station,
         ''Place: '' @ Place station,
         ''Updated At: '' @ UpdatedAt station],
      List_Rect = (0, 5, 50, 10)\<rparr>"

text \<open>
  The event loop. The list holds the events the channel delivers, in order; once it is
  exhausted the receive blocks for ever, which is the result \<open>None\<close>. The first argument
  is what is on the screen; the loop hands it back when it returns.
\<close>

fun event_loop :: "'v \<Rightarrow> Event list \<Rightarrow> ('v \<times> Event list) option" where
  "event_loop v [] = None"
| "event_loop v (e # es) =
     (if ID e = ''q'' \<or> ID e = ''<C-c>'' then Some (v, es) else event_loop v es)"

subsection \<open>Runs\<close>

record ReadCloser =
  data :: string
  read_error :: "error option"
  close_error :: "error option"

record Response =
  Body :: ReadCloser

record Request =
  Method :: string
  URL :: string
  Header :: "string \<rightharpoonup> string"

text \<open>
  The surroundings of one run: the results of the library calls and the events each
  view receives. \<open>Init k\<close> and \<open>PollEvents k\<close> belong to the \<open>k\<close>-th call of dataUi.
\<close>

record world =
  NewRequest :: "string \<Rightarrow> string \<Rightarrow> error + Request"
  Do :: "Request \<Rightarrow> Response option \<times> error option"
  Unmarshal :: "string \<Rightarrow> error + ApiResponse"
  Marshal :: "Aqi \<Rightarrow> error + string"
  Init :: "nat \<Rightarrow> error option"
  PollEvents :: "nat \<Rightarrow> Event list"

text \<open>
  How a run ends: the function returns (exit status 0 for the command), \<open>log.Fatal\<close> logs
  a message and exits with status 1 without running deferred calls, a run-time panic
  aborts the process, or the run waits for an event for ever.
\<close>

datatype outcome = Returned | Fatal string | Panic string | Blocked

datatype action =
    Println string
  | UiInit
  | UiRender GaugeWidget ListWidget ListWidget
  | UiClose
  | BodyClose

definition ReadAll :: "ReadCloser \<Rightarrow> string \<times> error option" where
  "ReadAll b = (data b, read_error b)"

definition nil_dereference :: string where
  "nil_dereference = ''runtime error: invalid memory address or nil pointer dereference''"

definition dataUi :: "platform \<Rightarrow> world \<Rightarrow> nat \<Rightarrow> float64 \<Rightarrow> Station \<Rightarrow> action list \<times> outcome" where
  "dataUi p w k aqi station =
     (case Init w k of
        Some err \<Rightarrow> ([], Fatal (''failed to initialize termui: '' @ err))
      | None \<Rightarrow>
          (let g = gauge p aqi station;
               list = pollutant_list p station;
               list2 = place_list station
           in case event_loop (g, list, list2) (PollEvents w k) of
                None \<Rightarrow> ([UiInit, UiRender g list list2], Blocked)
              | Some _ \<Rightarrow> ([UiInit, UiRender g list list2, UiClose], Returned)))"

definition summary :: "Station \<Rightarrow> Aqi" where
  "summary station =
     \<lparr>Aqi_City = City station,
      Aqi_Place = Place station,
      Aqi_State = State station,
      Aqi_UpdatedAt = UpdatedAt station,
      Aqi_AQI = AQI station,
      Aqi_AqiInfo = AqiInfo station\<rparr>"

text \<open>The loop over the stations; \<open>k\<close> counts the views opened so far.\<close>

fun station_loop :: "platform \<Rightarrow> world \<Rightarrow> nat \<Rightarrow> Station list \<Rightarrow> action list \<times> outcome" where
  "station_loop p w k [] = ([], Returned)"
| "station_loop p w k (station # rest) =
     (let aqi = summary station
      in case Marshal w aqi of
           Inl err \<Rightarrow> ([], Fatal (''unable to marshall the response : '' @ err))
         | Inr json \<Rightarrow>
             (case dataUi p w k (Aqi_AQI aqi) station of
                (acts, Returned) \<Rightarrow>
                  (case station_loop p w (Suc k) rest of
                     (acts', out) \<Rightarrow> (Println json # acts @ acts', out))
              | (acts, out) \<Rightarrow> (Println json # acts, out)))"

text \<open>
  The deferred call of getAqi, run when the function returns: it closes the body and
  is fatal when closing fails.
\<close>

definition deferred_close :: "ReadCloser \<Rightarrow> action list \<times> outcome" where
  "deferred_close b =
     (case close_error b of
        Some err \<Rightarrow> ([BodyClose], Fatal (''error occured: '' @ err))
      | None \<Rightarrow> ([BodyClose], Returned))"

definition getAqi :: "platform \<Rightarrow> world \<Rightarrow> flags \<Rightarrow> action list \<times> outcome" where
  "getAqi p w f =
     (case build_url f of
        Inl msg \<Rightarrow> ([], Fatal msg)
      | Inr url \<Rightarrow>
          (case NewRequest w ''GET'' url of
             Inl err \<Rightarrow> ([], Fatal err)
           | Inr req0 \<Rightarrow>
               (let req = req0\<lparr>Header := (Header req0)(''Content-Type'' \<mapsto> ''application/json'')\<rparr>;
                    (res, _) = Do w req
                in case res of
                     None \<Rightarrow> ([], Panic nil_dereference)
                   | Some r \<Rightarrow>
                       (let (body, _) = ReadAll (Body r)
                        in case Unmarshal w body of
                             Inl err \<Rightarrow> ([], Fatal (''unable to unmarshell the response : '' @ err))
                           | Inr aqi \<Rightarrow>
                               if length (Stations aqi) = 0 then ([], Fatal ''no stations found'')
                               else (case station_loop p w 0 (Stations aqi) of
                                       (acts, Returned) \<Rightarrow>
                                         (case deferred_close (Body r) of
                                            (acts', out) \<Rightarrow> (acts @ acts', out))
                                     | (acts, out) \<Rightarrow> (acts, out))))))"

subsection \<open>Sample surroundings\<close>

definition lahore :: Station where
  "lahore =
     \<lparr>CO = Finite 1, NO2 = Finite 2, OZONE = Finite 3, PM10 = Finite 40, PM25 = Finite 55,
      CountryCode = ''PK'', Division = ''Punjab'', Latitude = Finite (63 / 2),
      Longitude = Finite (297 / 4), PostalCode = ''54000'', City = ''Lahore'',
      Place = ''Gulberg'', State = ''Punjab'', UpdatedAt = ''2022-01-01T00:00:00Z'',
      AQI = Finite 250,
      AqiInfo = \<lparr>Pollutant = ''PM2.5'', Concentration = Finite 55, Category = ''Very Unhealthy''\<rparr>\<rparr>"

definition murree :: Station where
  "murree =
     lahore\<lparr>City := ''Murree'', Place := ''Mall Road'', AQI := Finite 0,
       AqiInfo := \<lparr>Pollutant = ''O3'', Concentration = Finite 3, Category = ''Good''\<rparr>\<rparr>"

definition amd64 :: platform where
  "amd64 =
     \<lparr>int_bits = 64, int_unrepresentable = (\<lambda>x. - (2 ^ 63)), Theme_Gauge_Bar = ColorOther 7\<rparr>"

definition city_flags :: flags where
  "city_flags = \<lparr>city = ''Lahore'', postal = [], country = [], latitude = [], longitude = []\<rparr>"

definition postal_flags :: flags where
  "postal_flags = \<lparr>city = [], postal = ''54000'', country = ''PK'', latitude = [], longitude = []\<rparr>"

definition coordinate_flags :: flags where
  "coordinate_flags = \<lparr>city = [], postal = [], country = [], latitude = ''31.5'', longitude = ''74.3''\<rparr>"

definition city_and_coordinate_flags :: flags where
  "city_and_coordinate_flags =
     \<lparr>city = ''Lahore'', postal = [], country = [], latitude = ''31.5'', longitude = ''74.3''\<rparr>"

definition plain_request :: "string \<Rightarrow> string \<Rightarrow> error + Request" where
  "plain_request m u = Inr \<lparr>Method = m, URL = u, Header = Map.empty\<rparr>"

definition city_line :: "Aqi \<Rightarrow> error + string" where
  "city_line a = Inr (''city: '' @ Aqi_City a)"

text \<open>
  A world in which the request is built, the server answers with the given body, the
  body decodes as given, and the user sends the given events to each view.
\<close>

definition answering :: "ReadCloser \<Rightarrow> (error + ApiResponse) \<Rightarrow> (nat \<Rightarrow> Event list) \<Rightarrow> world" where
  "answering b decoded evs =
     \<lparr>NewRequest = plain_request,
      Do = (\<lambda>req. (Some \<lparr>Body = b\<rparr>, None)),
      Unmarshal = (\<lambda>bytes. if bytes = data b then decoded else Inl ''unexpected end of JSON input''),
      Marshal = city_line,
      Init = (\<lambda>k. None),
      PollEvents = evs\<rparr>"

text \<open>A world in which the connection is refused.\<close>

definition refusing :: world where
  "refusing =
     \<lparr>NewRequest = plain_request,
      Do = (\<lambda>req. (None, Some ''dial tcp 127.0.0.1:3000: connect: connection refused'')),
      Unmarshal = (\<lambda>bytes. Inl ''unexpected end of JSON input''),
      Marshal = city_line,
      Init = (\<lambda>k. None),
      PollEvents = (\<lambda>k. [])\<rparr>"

definition whole_body :: ReadCloser where
  "whole_body = \<lparr>data = ''json of the envelope'', read_error = None, close_error = None\<rparr>"

definition cut_body :: ReadCloser where
  "cut_body = \<lparr>data = ''json of the envelope'', read_error = Some ''unexpected EOF'', close_error = None\<rparr>"

definition html_body :: ReadCloser where
  "html_body = \<lparr>data = ''<html>Bad Gateway</html>'', read_error = None, close_error = None\<rparr>"

definition press_q :: "nat \<Rightarrow> Event list" where
  "press_q k = [\<lparr>ID = ''<Resize>''\<rparr>, \<lparr>ID = ''j''\<rparr>, \<lparr>ID = ''q''\<rparr>]"



section \<open>Properties\<close>

subsection \<open>The query builder\<close>

lemma build_url_fatal_iff:
  "build_url f = Inl usage_message \<longleftrightarrow>
     \<not> (city f \<noteq> [] \<and> postal f = [] \<and> country f = [] \<and> latitude f = [] \<and> longitude f = []) \<and>
     \<not> (postal f \<noteq> [] \<and> country f \<noteq> [] \<and> latitude f = [] \<and> longitude f = []) \<and>
     \<not> (latitude f \<noteq> [] \<and> longitude f \<noteq> [])"
  by (simp add: build_url_def)

text \<open>
  C1 (the code departs from the claim). The claim: every flag combination that is not
  exactly one of the three shapes ends in the fatal usage error, a valid shape with an
  extra flag included. The code: the latitude/longitude branch does not look at the other
  flags, so a city together with both coordinates builds the coordinate URL.
\<close>

theorem build_url_city_with_coordinates:
  "build_url city_and_coordinate_flags = Inr ''http://localhost:3000/api?lat=31.5&lng=74.3''"
  by (simp add: build_url_def city_and_coordinate_flags_def)

text \<open>
  C2. For each of the three shapes the URL is the fixed base followed by the raw
  parameters: \<open>city=\<close>, \<open>postal=\<close> and \<open>&country=\<close>, \<open>lat=\<close> and \<open>&lng=\<close>.
\<close>

theorem build_url_shapes:
  "(city f \<noteq> [] \<and> postal f = [] \<and> country f = [] \<and> latitude f = [] \<and> longitude f = [] \<longrightarrow>
      build_url f = Inr (''http://localhost:3000/api?city='' @ city f)) \<and>
   (city f = [] \<and> postal f \<noteq> [] \<and> country f \<noteq> [] \<and> latitude f = [] \<and> longitude f = [] \<longrightarrow>
      build_url f = Inr (''http://localhost:3000/api?postal='' @ postal f @ ''&country='' @ country f)) \<and>
   (city f = [] \<and> postal f = [] \<and> country f = [] \<and> latitude f \<noteq> [] \<and> longitude f \<noteq> [] \<longrightarrow>
      build_url f = Inr (''http://localhost:3000/api?lat='' @ latitude f @ ''&lng='' @ longitude f))"
  by (simp add: build_url_def)

theorem build_url_shapes_witness:
  "build_url city_flags = Inr ''http://localhost:3000/api?city=Lahore'' \<and>
   build_url postal_flags = Inr ''http://localhost:3000/api?postal=54000&country=PK'' \<and>
   build_url coordinate_flags = Inr ''http://localhost:3000/api?lat=31.5&lng=74.3''"
  using build_url_shapes [of city_flags] build_url_shapes [of postal_flags]
    build_url_shapes [of coordinate_flags]
  by (simp add: city_flags_def postal_flags_def coordinate_flags_def)

subsection \<open>Failures of the fetch\<close>

text \<open>
  C4. When executing the request fails, so that the client returns no response together
  with an error, the error is dropped and evaluating \<open>res.Body\<close> for the deferred call
  dereferences nil: the run ends in a panic, with nothing logged and no fatal exit.
\<close>

theorem request_failure_panics:
  assumes "build_url f = Inr url"
    and "NewRequest w ''GET'' url = Inr req"
    and "Do w (req\<lparr>Header := (Header req)(''Content-Type'' \<mapsto> ''application/json'')\<rparr>) = (None, Some err)"
  shows "getAqi p w f = ([], Panic nil_dereference)"
  using assms by (simp add: getAqi_def)

theorem request_failure_panics_witness:
  "build_url city_flags = Inr ''http://localhost:3000/api?city=Lahore'' \<and>
   getAqi amd64 refusing city_flags = ([], Panic nil_dereference)"
proof -
  have u: "build_url city_flags = Inr ''http://localhost:3000/api?city=Lahore''"
    by (simp add: build_url_def city_flags_def)
  have r: "NewRequest refusing ''GET'' ''http://localhost:3000/api?city=Lahore'' =
      Inr \<lparr>Method = ''GET'', URL = ''http://localhost:3000/api?city=Lahore'', Header = Map.empty\<rparr>"
    by (simp add: refusing_def plain_request_def)
  have d: "Do refusing
      (\<lparr>Method = ''GET'', URL = ''http://localhost:3000/api?city=Lahore'', Header = Map.empty\<rparr>
        \<lparr>Header := (Header \<lparr>Method = ''GET'', URL = ''http://localhost:3000/api?city=Lahore'',
            Header = Map.empty\<rparr>)(''Content-Type'' \<mapsto> ''application/json'')\<rparr>) =
      (None, Some ''dial tcp 127.0.0.1:3000: connect: connection refused'')"
    by (simp add: refusing_def)
  show ?thesis
    using u request_failure_panics [OF u r d, of amd64] by simp
qed

text \<open>
  C5. A decoded envelope without stations ends the run with the fatal message
  \<open>no stations found\<close>, whatever its message field holds; the run has performed no action:
  no summary line was printed and no view was opened.
\<close>

theorem empty_stations_fatal:
  assumes "build_url f = Inr url"
    and "NewRequest w ''GET'' url = Inr req"
    and "Do w (req\<lparr>Header := (Header req)(''Content-Type'' \<mapsto> ''application/json'')\<rparr>) = (Some r, e)"
    and "Unmarshal w (data (Body r)) = Inr \<lparr>Message = m, Stations = []\<rparr>"
  shows "getAqi p w f = ([], Fatal ''no stations found'')"
  using assms by (simp add: getAqi_def ReadAll_def)

theorem empty_stations_fatal_witness:
  "getAqi amd64 (answering whole_body (Inr \<lparr>Message = ''2 stations found'', Stations = []\<rparr>) press_q)
     city_flags = ([], Fatal ''no stations found'')"
proof -
  let ?w = "answering whole_body (Inr \<lparr>Message = ''2 stations found'', Stations = []\<rparr>) press_q"
  let ?req = "\<lparr>Method = ''GET'', URL = ''http://localhost:3000/api?city=Lahore'', Header = Map.empty\<rparr>"
  have u: "build_url city_flags = Inr ''http://localhost:3000/api?city=Lahore''"
    by (simp add: build_url_def city_flags_def)
  have r: "NewRequest ?w ''GET'' ''http://localhost:3000/api?city=Lahore'' = Inr ?req"
    by (simp add: answering_def plain_request_def)
  have d: "Do ?w (?req\<lparr>Header := (Header ?req)(''Content-Type'' \<mapsto> ''application/json'')\<rparr>) =
      (Some \<lparr>Body = whole_body\<rparr>, None)"
    by (simp add: answering_def)
  have j: "Unmarshal ?w (data (Body \<lparr>Body = whole_body\<rparr>)) =
      Inr \<lparr>Message = ''2 stations found'', Stations = []\<rparr>"
    by (simp add: answering_def)
  show ?thesis
    by (rule empty_stations_fatal [OF u r d j])
qed

subsection \<open>The gauge\<close>

text \<open>
  C7. The bar colour of the rendered gauge is a fixed function of the category: green
  for \<open>Good\<close>, yellow for \<open>Moderate\<close>, red for \<open>Unhealthy for Sensitive Groups\<close>,
  \<open>Unhealthy\<close>, \<open>Very Unhealthy\<close> and \<open>Hazardous\<close>; for any other category the gauge
  keeps the colour it was created with.
\<close>

theorem bar_color_by_category:
  "BarColor (gauge p aqi station) =
     (if Category (AqiInfo station) = ''Good'' then ColorGreen
      else if Category (AqiInfo station) = ''Moderate'' then ColorYellow
      else if Category (AqiInfo station) \<in>
          {''Unhealthy for Sensitive Groups'', ''Unhealthy'', ''Very Unhealthy'', ''Hazardous''}
        then ColorRed
      else BarColor (NewGauge p))"
  by (simp add: gauge_def set_bar_color_def)

subsection \<open>The event loop\<close>

lemma event_loop_no_quit:
  "\<forall>e \<in> set es. ID e \<noteq> ''q'' \<and> ID e \<noteq> ''<C-c>'' \<Longrightarrow> event_loop v es = None"
  by (induction es) simp_all

lemma event_loop_first_quit:
  "\<forall>e \<in> set pre. ID e \<noteq> ''q'' \<and> ID e \<noteq> ''<C-c>'' \<Longrightarrow> ID k = ''q'' \<or> ID k = ''<C-c>''
   \<Longrightarrow> event_loop v (pre @ k # post) = Some (v, post)"
  by (induction pre) simp_all

lemma event_loop_Some:
  "event_loop v es = Some (v', rest) \<Longrightarrow>
     v' = v \<and> (\<exists>pre k. es = pre @ k # rest \<and> (\<forall>e \<in> set pre. ID e \<noteq> ''q'' \<and> ID e \<noteq> ''<C-c>'') \<and>
       (ID k = ''q'' \<or> ID k = ''<C-c>''))"
proof (induction es)
  case Nil
  then show ?case by simp
next
  case (Cons a es)
  show ?case
  proof (cases "ID a = ''q'' \<or> ID a = ''<C-c>''")
    case True
    with Cons.prems have "v' = v" and "rest = es" by auto
    with True have "a # es = [] @ a # rest \<and> (\<forall>e \<in> set []. ID e \<noteq> ''q'' \<and> ID e \<noteq> ''<C-c>'') \<and>
        (ID a = ''q'' \<or> ID a = ''<C-c>'')"
      by simp
    with \<open>v' = v\<close> show ?thesis by blast
  next
    case False
    with Cons.prems have "event_loop v es = Some (v', rest)" by simp
    from Cons.IH [OF this] obtain pre k where
      "v' = v" and "es = pre @ k # rest" and "\<forall>e \<in> set pre. ID e \<noteq> ''q'' \<and> ID e \<noteq> ''<C-c>''"
      and "ID k = ''q'' \<or> ID k = ''<C-c>''"
      by blast
    with False have "a # es = (a # pre) @ k # rest \<and>
        (\<forall>e \<in> set (a # pre). ID e \<noteq> ''q'' \<and> ID e \<noteq> ''<C-c>'') \<and> (ID k = ''q'' \<or> ID k = ''<C-c>'')"
      by simp
    with \<open>v' = v\<close> show ?thesis by blast
  qed
qed

text \<open>
  C9. The loop does not return while the events received are neither \<open>q\<close> nor
  \<open><C-c>\<close>; it returns at the first event that is one of the two, having consumed the
  events up to and including it, and what is on the screen is what was rendered before
  the loop: no other event changes it.
\<close>

theorem event_loop_returns_at_first_quit:
  "((\<forall>e \<in> set es. ID e \<noteq> ''q'' \<and> ID e \<noteq> ''<C-c>'') \<longrightarrow> event_loop v es = None) \<and>
   ((\<forall>e \<in> set pre. ID e \<noteq> ''q'' \<and> ID e \<noteq> ''<C-c>'') \<and> (ID k = ''q'' \<or> ID k = ''<C-c>'') \<longrightarrow>
      event_loop v (pre @ k # post) = Some (v, post)) \<and>
   (event_loop v es = Some (v', rest) \<longrightarrow>
      v' = v \<and> (\<exists>pre k. es = pre @ k # rest \<and>
        (\<forall>e \<in> set pre. ID e \<noteq> ''q'' \<and> ID e \<noteq> ''<C-c>'') \<and> (ID k = ''q'' \<or> ID k = ''<C-c>'')))"
  using event_loop_no_quit [of es v] event_loop_first_quit [of pre k v post]
    event_loop_Some [of v es v' rest]
  by blast

theorem event_loop_returns_at_first_quit_witness:
  "event_loop (0 :: nat) [\<lparr>ID = ''<Resize>''\<rparr>, \<lparr>ID = ''j''\<rparr>] = None \<and>
   event_loop (0 :: nat) ([\<lparr>ID = ''<Resize>''\<rparr>, \<lparr>ID = ''j''\<rparr>] @ \<lparr>ID = ''q''\<rparr> # [\<lparr>ID = ''k''\<rparr>]) =
     Some (0, [\<lparr>ID = ''k''\<rparr>]) \<and>
   (\<exists>pre k. press_q 0 = pre @ k # [] \<and> (\<forall>e \<in> set pre. ID e \<noteq> ''q'' \<and> ID e \<noteq> ''<C-c>'') \<and>
      (ID k = ''q'' \<or> ID k = ''<C-c>''))"
proof -
  have a: "event_loop (0 :: nat) [\<lparr>ID = ''<Resize>''\<rparr>, \<lparr>ID = ''j''\<rparr>] = None"
    using event_loop_returns_at_first_quit
      [of "[\<lparr>ID = ''<Resize>''\<rparr>, \<lparr>ID = ''j''\<rparr>]" "0 :: nat" "[]" "\<lparr>ID = ''q''\<rparr>" "[]" 0 "[]"]
    by simp
  have b: "event_loop (0 :: nat) ([\<lparr>ID = ''<Resize>''\<rparr>, \<lparr>ID = ''j''\<rparr>] @ \<lparr>ID = ''q''\<rparr> # [\<lparr>ID = ''k''\<rparr>]) =
      Some (0, [\<lparr>ID = ''k''\<rparr>])"
    using event_loop_returns_at_first_quit
      [of "[]" "0 :: nat" "[\<lparr>ID = ''<Resize>''\<rparr>, \<lparr>ID = ''j''\<rparr>]" "\<lparr>ID = ''q''\<rparr>" "[\<lparr>ID = ''k''\<rparr>]" 0 "[]"]
    by simp
  have c: "event_loop (0 :: nat) (press_q 0) = Some (0, [])"
    by (simp add: press_q_def)
  have d: "\<exists>pre k. press_q 0 = pre @ k # [] \<and> (\<forall>e \<in> set pre. ID e \<noteq> ''q'' \<and> ID e \<noteq> ''<C-c>'') \<and>
      (ID k = ''q'' \<or> ID k = ''<C-c>'')"
    using c event_loop_returns_at_first_quit
      [of "press_q 0" "0 :: nat" "[]" "\<lparr>ID = ''q''\<rparr>" "[]" 0 "[]"]
    by blast
  from a b d show ?thesis by blast
qed


subsection \<open>The loop over the stations\<close>





lemma City_samples: "City lahore = ''Lahore''" "City murree = ''Murree''"
  by (simp_all add: lahore_def murree_def)



subsection \<open>Errors of the fetch and the release of the body\<close>

lemma request_construction_error_fatal:
  "build_url f = Inr url \<Longrightarrow> NewRequest w ''GET'' url = Inl err \<Longrightarrow> getAqi p w f = ([], Fatal err)"
  by (simp add: getAqi_def)

lemma decode_error_fatal:
  "build_url f = Inr url \<Longrightarrow> NewRequest w ''GET'' url = Inr req \<Longrightarrow>
   Do w (req\<lparr>Header := (Header req)(''Content-Type'' \<mapsto> ''application/json'')\<rparr>) = (Some r, e) \<Longrightarrow>
   Unmarshal w (data (Body r)) = Inl err \<Longrightarrow>
   getAqi p w f = ([], Fatal (''unable to unmarshell the response : '' @ err))"
  by (simp add: getAqi_def ReadAll_def)

text \<open>
  C3 (the code departs from the claim). The claim: an error of constructing the request,
  of reading the response and of decoding the JSON each end the run with a fatal log.
  The first and the last do (the two lemmas above). The error of \<open>ReadAll\<close> is assigned
  to the blank identifier: when the body breaks off with \<open>unexpected EOF\<close> after bytes
  that decode, the run shows the station and returns normally, and the error is never
  logged.
\<close>

theorem read_error_is_dropped:
  "read_error cut_body = Some ''unexpected EOF'' \<and>
   getAqi amd64 (answering cut_body (Inr \<lparr>Message = ''ok'', Stations = [lahore]\<rparr>) press_q) city_flags =
     ([Println ''city: Lahore'', UiInit,
       UiRender (gauge amd64 (AQI lahore) lahore) (pollutant_list amd64 lahore) (place_list lahore),
       UiClose,
       BodyClose], Returned)"
  by (simp add: getAqi_def build_url_def city_flags_def answering_def plain_request_def
      ReadAll_def cut_body_def dataUi_def press_q_def city_line_def summary_def
      deferred_close_def City_samples)

text \<open>
  C10 (the code departs from the claim). The claim: the body is closed after it was
  read, whether decoding then succeeds or fails. The code defers the close to the return
  of getAqi, and a failed decode ends the run in \<open>log.Fatalf\<close>, which exits without
  running deferred calls: for a body that is not JSON the run ends fatally and has never
  closed the body.
\<close>

theorem body_not_closed_when_decode_fails:
  "getAqi amd64
     (answering html_body (Inl ''invalid character < looking for beginning of value'') press_q)
     city_flags =
     ([], Fatal ''unable to unmarshell the response : invalid character < looking for beginning of value'') \<and>
   BodyClose \<notin> set (fst (getAqi amd64
     (answering html_body (Inl ''invalid character < looking for beginning of value'') press_q)
     city_flags))"
  by (simp add: getAqi_def build_url_def city_flags_def answering_def plain_request_def
      ReadAll_def html_body_def)

subsection \<open>The gauge percentage\<close>


































end
